theory Spec2Isabelle
  imports Complex_Main "HOL-Library.Char_ord" "HOL-Library.List_Lexorder" "HOL-Library.Multiset"
begin

section \<open>The partition selector of model/dataset.py\<close>

text \<open>
  The class \<^verbatim>\<open>Dataset\<close> of \<^verbatim>\<open>model/dataset.py\<close> reads a configuration, scans
  directories for \<^verbatim>\<open>.wav\<close> files and hands argument tuples to the batch generator
  \<^verbatim>\<open>genUnbalSequence\<close>. The embedding below keeps the attribute names of the class and
  the key names of the configuration.

  \<^item> A path and a selection tag are a \<open>string\<close>, a text of characters with a code point
    below 256.
  \<^item> Batch sizes, anchor counts and \<^verbatim>\<open>max_song\<close> are Python integers: \<open>int\<close>.
  \<^item> Duration, hop, sample rate and \<^verbatim>\<open>reduce_items_p\<close> are numbers that the class only
    passes on: \<open>rat\<close>.
  \<^item> An SNR range is a list of numbers or \<^verbatim>\<open>None\<close>; a file-list attribute is a list of
    paths or \<^verbatim>\<open>None\<close>.
  \<^item> Every method mutates \<^verbatim>\<open>self\<close> and either returns or raises: it is a function to a
    pair of the outcome (\<open>Inl\<close> the exception) and the object afterwards.
\<close>

subsection \<open>Values, errors, the file system\<close>

type_synonym fps = "string list"

type_synonym snr = "int list option"

text \<open>
  The exceptions that the methods can raise: the explicit \<^verbatim>\<open>raise NotImplementedError(tag)\<close>,
  the read of an attribute that the object does not have (the argument is the attribute's
  name), and whatever \<^verbatim>\<open>open\<close> or the reading of a text file raises (the argument is
  the path): the file does not exist, it is a directory, it may not be read, its bytes
  are not text, or any other error of the operating system.
\<close>

datatype error =
  NotImplementedError string
  | AttributeError string
  | FileNotFoundError string
  | IsADirectoryError string
  | PermissionError string
  | UnicodeDecodeError string
  | OSError string

text \<open>
  The file system as the class sees it. \<open>glob files pat\<close> is what
  \<^verbatim>\<open>glob.glob(pat, recursive=True)\<close> returns, in the order the operating system lists
  the entries (a directory that does not exist or holds no match gives the empty list).
  \<open>read_text files path\<close> is what \<^verbatim>\<open>open(path, "r")\<close> and reading the file to its end
  give: the text as text mode delivers it, or the exception that \<^verbatim>\<open>open\<close> or the
  reading raises.
\<close>

record filesystem =
  glob :: "string \<Rightarrow> string list"
  read_text :: "string \<Rightarrow> error + string"

text \<open>
  Python's \<^verbatim>\<open>sorted\<close> on strings orders by code point, lexicographically: \<open>sort\<close>
  on \<open>string\<close> with the order of \<open>Char_ord\<close> and \<open>List_Lexorder\<close>.
\<close>

definition sorted_glob :: "filesystem \<Rightarrow> string \<Rightarrow> fps" where
  "sorted_glob files pat = sort (glob files pat)"

text \<open>The slice \<^verbatim>\<open>xs[:k]\<close>: a negative \<open>k\<close> counts from the end.\<close>

definition slice_to :: "'a list \<Rightarrow> int \<Rightarrow> 'a list" where
  "slice_to xs k =
     (if k < 0 then take (nat (int (length xs) + k)) xs else take (nat k) xs)"

text \<open>
  \<^verbatim>\<open>str.isnumeric\<close> is true of a text that has at least one character and whose
  characters are all numeric in Unicode. Among the ASCII characters the numeric ones are
  the decimal digits. Which characters beyond ASCII are numeric is a table of the Python
  runtime and not of this repository, so it is a parameter: \<open>beyond_ascii s\<close> is what
  \<^verbatim>\<open>str.isnumeric\<close> answers for a text \<open>s\<close> that has a character beyond ASCII.
\<close>

definition isnumeric :: "(string \<Rightarrow> bool) \<Rightarrow> string \<Rightarrow> bool" where
  "isnumeric beyond_ascii s =
     (if list_all (\<lambda>c. c < CHR 0x80) s
      then s \<noteq> [] \<and> list_all (\<lambda>c. CHR ''0'' \<le> c \<and> c \<le> CHR ''9'') s
      else beyond_ascii s)"

text \<open>
  The table for texts of code points below 256 (Latin-1): beyond ASCII the numeric
  characters are the superscripts one, two and three and the fractions one quarter, one
  half and three quarters.
\<close>

definition latin1_numeric :: "string \<Rightarrow> bool" where
  "latin1_numeric s =
     (s \<noteq> [] \<and>
      list_all (\<lambda>c. (CHR ''0'' \<le> c \<and> c \<le> CHR ''9'') \<or>
                     c \<in> set [CHR 0xB2, CHR 0xB3, CHR 0xB9, CHR 0xBC, CHR 0xBD, CHR 0xBE]) s)"

text \<open>
  Iterating over a text file yields its lines, each with its newline (the last one may
  have none); \<^verbatim>\<open>l.split("\n")[0]\<close> is the line up to its first newline.
\<close>

fun readlines :: "string \<Rightarrow> string list" where
  "readlines [] = []"
| "readlines (c # cs) =
     (if c = CHR 0x0A then [c] # readlines cs
      else (case readlines cs of [] \<Rightarrow> [[c]] | l # ls \<Rightarrow> (c # l) # ls))"

definition split_newline_first :: "string \<Rightarrow> string" where
  "split_newline_first l = takeWhile (\<lambda>c. c \<noteq> CHR 0x0A) l"

subsection \<open>The configuration\<close>

text \<open>
  The nested dictionary \<^verbatim>\<open>cfg\<close>, with every key that the constructor reads (a missing
  key would raise \<^verbatim>\<open>KeyError\<close> in the constructor and is not modelled).
\<close>

record cfg_DIR =
  SOURCE_ROOT_DIR :: string
  MIX_ROOT_DIR :: string
  BG_ROOT_DIR :: string
  IR_ROOT_DIR :: string
  SPEECH_ROOT_DIR :: string

record cfg_DATA_SEL =
  TRAIN :: string
  TEST_DUMMY_DB :: string
  TEST_QUERY_DB :: string

record cfg_BSZ =
  TR_BATCH_SZ :: int
  TR_N_ANCHOR :: int
  VAL_BATCH_SZ :: int
  VAL_N_ANCHOR :: int
  TS_BATCH_SZ :: int

record cfg_MODEL =
  DUR :: rat
  HOP :: rat
  FS :: rat

record cfg_TD_AUG =
  TR_SNR :: snr
  TS_SNR :: snr
  VAL_SNR :: snr
  TR_BG_AUG :: bool
  TS_BG_AUG :: bool
  VAL_BG_AUG :: bool
  TR_IR_AUG :: bool
  TS_IR_AUG :: bool
  VAL_IR_AUG :: bool
  TR_SPEECH_AUG :: bool
  TS_SPEECH_AUG :: bool
  VAL_SPEECH_AUG :: bool

record cfg =
  DIR :: cfg_DIR
  DATA_SEL :: cfg_DATA_SEL
  BSZ :: cfg_BSZ
  MODEL :: cfg_MODEL
  TD_AUG :: cfg_TD_AUG

subsection \<open>The object\<close>

text \<open>The attributes of a \<^verbatim>\<open>Dataset\<close> object, in the order the constructor sets them.\<close>

record dataset =
  source_root_dir :: string
  mix_root_dir :: string
  bg_root_dir :: string
  ir_root_dir :: string
  speech_root_dir :: string
  datasel_train :: string
  datasel_test_dummy_db :: string
  datasel_test_query_db :: string
  tr_batch_sz :: int
  tr_n_anchor :: int
  val_batch_sz :: int
  val_n_anchor :: int
  ts_batch_sz :: int
  dur :: rat
  hop :: rat
  fs :: rat
  tr_snr :: snr
  ts_snr :: snr
  val_snr :: snr
  tr_use_bg_aug :: bool
  ts_use_bg_aug :: bool
  val_use_bg_aug :: bool
  tr_use_ir_aug :: bool
  ts_use_ir_aug :: bool
  val_use_ir_aug :: bool
  tr_use_speech_aug :: bool
  ts_use_speech_aug :: bool
  val_use_speech_aug :: bool
  tr_bg_fps :: "fps option"
  ts_bg_fps :: "fps option"
  val_bg_fps :: "fps option"
  tr_ir_fps :: "fps option"
  ts_ir_fps :: "fps option"
  val_ir_fps :: "fps option"
  tr_speech_fps :: "fps option"
  ts_speech_fps :: "fps option"
  val_speech_fps :: "fps option"
  tr_source_fps :: "fps option"
  val_source_fps :: "fps option"
  tr_mix_fps :: "fps option"
  val_mix_fps :: "fps option"
  ts_dummy_db_source_fps :: "fps option"
  ts_query_icassp_fps :: "fps option"
  ts_db_icassp_fps :: "fps option"
  ts_query_db_unseen_fps :: "fps option"

subsection \<open>The policy: the arguments of one call of the generator\<close>

text \<open>
  An augmentation parameter is the Python list that the call passes: \<^verbatim>\<open>[enabled]\<close>,
  \<^verbatim>\<open>[enabled, files]\<close> or \<^verbatim>\<open>[enabled, files, snr]\<close>.
\<close>

datatype mix_parameter =
  Mix1 bool
  | Mix2 bool "fps option"
  | Mix3 bool "fps option" snr

text \<open>
  The arguments of a call of \<^verbatim>\<open>genUnbalSequence\<close>. Where a call passes its first six
  arguments by position they are read as file list, batch size, anchor count, duration,
  hop and sample rate, the order of the keywords in \<^verbatim>\<open>get_train_ds\<close>. A keyword that a
  call leaves out is \<open>None\<close> (the generator's default applies, which is not part of this
  file). The fields \<open>hop_kw\<close> and \<open>fs_kw\<close> are the keywords \<^verbatim>\<open>hop\<close> and \<^verbatim>\<open>fs\<close>.
\<close>

record policy =
  fns_source_event_list :: fps
  fns_mix_event_list :: "fps option"
  bsz :: int
  n_anchor :: int
  duration :: rat
  hop_kw :: rat
  fs_kw :: rat
  shuffle :: bool
  random_offset_anchor :: bool
  bg_mix_parameter :: "mix_parameter option"
  ir_mix_parameter :: "mix_parameter option"
  speech_mix_parameter :: "mix_parameter option"
  reduce_items_p :: "rat option"
  reduce_batch_first_half :: "bool option"
  drop_the_last_non_full_batch :: "bool option"



subsection \<open>The constructor\<close>

text \<open>
  \<^verbatim>\<open>__set_augmentation_fps\<close> runs on the object together with the list of the patterns
  handed to \<^verbatim>\<open>glob.glob\<close> so far. \<open>scan\<close> is one statement
  \<^verbatim>\<open>self.attr = sorted(glob.glob(pat, recursive=True))\<close>, where the pattern is built from
  an attribute of the object; \<open>scan_if\<close> is the same statement under
  \<^verbatim>\<open>if self.toggle:\<close>.
\<close>

definition scan ::
  "filesystem \<Rightarrow> (dataset \<Rightarrow> string) \<Rightarrow> (fps \<Rightarrow> dataset \<Rightarrow> dataset)
     \<Rightarrow> dataset \<times> string list \<Rightarrow> dataset \<times> string list" where
  "scan files pat store s =
     (store (sorted_glob files (pat (fst s))) (fst s), snd s @ [pat (fst s)])"

definition scan_if ::
  "filesystem \<Rightarrow> (dataset \<Rightarrow> bool) \<Rightarrow> (dataset \<Rightarrow> string) \<Rightarrow> (fps \<Rightarrow> dataset \<Rightarrow> dataset)
     \<Rightarrow> dataset \<times> string list \<Rightarrow> dataset \<times> string list" where
  "scan_if files use pat store s = (if use (fst s) then scan files pat store s else s)"

definition set_augmentation_fps ::
  "filesystem \<Rightarrow> dataset \<times> string list \<Rightarrow> dataset \<times> string list" where
  "set_augmentation_fps files s0 =
     (let s1 = scan_if files tr_use_bg_aug (\<lambda>self. bg_root_dir self @ ''tr/**/*.wav'')
                 (\<lambda>l self. self\<lparr>tr_bg_fps := Some l\<rparr>) s0;
          s2 = scan_if files ts_use_bg_aug (\<lambda>self. bg_root_dir self @ ''ts/**/*.wav'')
                 (\<lambda>l self. self\<lparr>ts_bg_fps := Some l\<rparr>) s1;
          s3 = scan_if files val_use_bg_aug (\<lambda>self. bg_root_dir self @ ''tr/**/*.wav'')
                 (\<lambda>l self. self\<lparr>val_bg_fps := Some l\<rparr>) s2;
          s4 = scan_if files tr_use_ir_aug (\<lambda>self. ir_root_dir self @ ''tr/**/*.wav'')
                 (\<lambda>l self. self\<lparr>tr_ir_fps := Some l\<rparr>) s3;
          s5 = scan_if files ts_use_ir_aug (\<lambda>self. ir_root_dir self @ ''ts/**/*.wav'')
                 (\<lambda>l self. self\<lparr>ts_ir_fps := Some l\<rparr>) s4;
          s6 = scan_if files val_use_ir_aug (\<lambda>self. ir_root_dir self @ ''tr/**/*.wav'')
                 (\<lambda>l self. self\<lparr>val_ir_fps := Some l\<rparr>) s5;
          s7 = scan_if files tr_use_speech_aug
                 (\<lambda>self. speech_root_dir self @ ''train/**/*.wav'')
                 (\<lambda>l self. self\<lparr>tr_speech_fps := Some l\<rparr>) s6;
          s8 = scan files (\<lambda>self. speech_root_dir self @ ''test/**/*.wav'')
                 (\<lambda>l self. self\<lparr>ts_speech_fps := Some l\<rparr>) s7;
          s9 = scan_if files val_use_speech_aug
                 (\<lambda>self. speech_root_dir self @ ''dev/**/*.wav'')
                 (\<lambda>l self. self\<lparr>val_speech_fps := Some l\<rparr>) s8
      in s9)"

text \<open>
  \<^verbatim>\<open>__init__\<close>: the attributes copied from the configuration, every file-list attribute
  \<^verbatim>\<open>None\<close>, then \<^verbatim>\<open>__set_augmentation_fps\<close>. The result is the object and the patterns
  scanned while it was built. (The source-list attributes are set to \<^verbatim>\<open>None\<close> after the
  augmentation lists; the two groups of attributes are disjoint.)
\<close>

definition attributes_of_cfg :: "cfg \<Rightarrow> dataset" where
  "attributes_of_cfg c =
     \<lparr> source_root_dir = SOURCE_ROOT_DIR (DIR c),
       mix_root_dir = MIX_ROOT_DIR (DIR c),
       bg_root_dir = BG_ROOT_DIR (DIR c),
       ir_root_dir = IR_ROOT_DIR (DIR c),
       speech_root_dir = SPEECH_ROOT_DIR (DIR c),
       datasel_train = TRAIN (DATA_SEL c),
       datasel_test_dummy_db = TEST_DUMMY_DB (DATA_SEL c),
       datasel_test_query_db = TEST_QUERY_DB (DATA_SEL c),
       tr_batch_sz = TR_BATCH_SZ (BSZ c),
       tr_n_anchor = TR_N_ANCHOR (BSZ c),
       val_batch_sz = VAL_BATCH_SZ (BSZ c),
       val_n_anchor = VAL_N_ANCHOR (BSZ c),
       ts_batch_sz = TS_BATCH_SZ (BSZ c),
       dur = DUR (MODEL c),
       hop = HOP (MODEL c),
       fs = FS (MODEL c),
       tr_snr = TR_SNR (TD_AUG c),
       ts_snr = TS_SNR (TD_AUG c),
       val_snr = VAL_SNR (TD_AUG c),
       tr_use_bg_aug = TR_BG_AUG (TD_AUG c),
       ts_use_bg_aug = TS_BG_AUG (TD_AUG c),
       val_use_bg_aug = VAL_BG_AUG (TD_AUG c),
       tr_use_ir_aug = TR_IR_AUG (TD_AUG c),
       ts_use_ir_aug = TS_IR_AUG (TD_AUG c),
       val_use_ir_aug = VAL_IR_AUG (TD_AUG c),
       tr_use_speech_aug = TR_SPEECH_AUG (TD_AUG c),
       ts_use_speech_aug = TS_SPEECH_AUG (TD_AUG c),
       val_use_speech_aug = VAL_SPEECH_AUG (TD_AUG c),
       tr_bg_fps = None, ts_bg_fps = None, val_bg_fps = None,
       tr_ir_fps = None, ts_ir_fps = None, val_ir_fps = None,
       tr_speech_fps = None, ts_speech_fps = None, val_speech_fps = None,
       tr_source_fps = None, val_source_fps = None,
       tr_mix_fps = None, val_mix_fps = None,
       ts_dummy_db_source_fps = None,
       ts_query_icassp_fps = None, ts_db_icassp_fps = None,
       ts_query_db_unseen_fps = None \<rparr>"

definition init :: "filesystem \<Rightarrow> cfg \<Rightarrow> dataset \<times> string list" where
  "init files c = set_augmentation_fps files (attributes_of_cfg c, [])"

subsection \<open>The methods\<close>

text \<open>The call shared by the partitions without augmentation: anchors only, no drop.\<close>

definition plain_policy :: "dataset \<Rightarrow> fps \<Rightarrow> policy" where
  "plain_policy self files_list =
     \<lparr> fns_source_event_list = files_list,
       fns_mix_event_list = None,
       bsz = ts_batch_sz self,
       n_anchor = ts_batch_sz self,
       duration = dur self,
       hop_kw = hop self,
       fs_kw = fs self,
       shuffle = False,
       random_offset_anchor = False,
       bg_mix_parameter = None,
       ir_mix_parameter = None,
       speech_mix_parameter = None,
       reduce_items_p = None,
       reduce_batch_first_half = None,
       drop_the_last_non_full_batch = Some False \<rparr>"

definition get_train_ds ::
  "filesystem \<Rightarrow> rat \<Rightarrow> dataset \<Rightarrow> (error + policy) \<times> dataset" where
  "get_train_ds files reduce_p self =
     (case (if datasel_train self = ''10k_icassp'' then Inr ''train-10k-30s/''
            else if datasel_train self = ''audible'' then Inr ''dataset/''
            else Inl (NotImplementedError (datasel_train self))) of
        Inl e \<Rightarrow> (Inl e, self)
      | Inr prefix \<Rightarrow>
          (let src = sorted_glob files (source_root_dir self @ ''**/*.wav'');
               mix = sorted_glob files (mix_root_dir self @ ''**/*.wav'');
               self = self\<lparr>tr_source_fps := Some src\<rparr>;
               self = self\<lparr>tr_mix_fps := Some mix\<rparr>
           in (Inr \<lparr> fns_source_event_list = src,
                     fns_mix_event_list = Some mix,
                     bsz = tr_batch_sz self,
                     n_anchor = tr_n_anchor self,
                     duration = dur self,
                     hop_kw = hop self,
                     fs_kw = fs self,
                     shuffle = True,
                     random_offset_anchor = True,
                     bg_mix_parameter =
                       Some (Mix3 (tr_use_bg_aug self) (tr_bg_fps self) (tr_snr self)),
                     ir_mix_parameter = Some (Mix2 (tr_use_ir_aug self) (tr_ir_fps self)),
                     speech_mix_parameter =
                       Some (Mix3 (tr_use_speech_aug self) (tr_speech_fps self) (tr_snr self)),
                     reduce_items_p = Some reduce_p,
                     reduce_batch_first_half = None,
                     drop_the_last_non_full_batch = None \<rparr>,
               self)))"

definition get_val_ds ::
  "filesystem \<Rightarrow> int \<Rightarrow> dataset \<Rightarrow> (error + policy) \<times> dataset" where
  "get_val_ds files max_song self =
     (let val = slice_to
                  (sorted_glob files
                     (source_root_dir self @ ''val-query-db-500-30s/'' @ ''**/*.wav''))
                  max_song;
          self = self\<lparr>val_source_fps := Some val\<rparr>
      in (Inr \<lparr> fns_source_event_list = val,
                fns_mix_event_list = None,
                bsz = val_batch_sz self,
                n_anchor = val_n_anchor self,
                duration = dur self,
                hop_kw = hop self,
                fs_kw = fs self,
                shuffle = False,
                random_offset_anchor = False,
                bg_mix_parameter =
                  Some (Mix3 (val_use_bg_aug self) (val_bg_fps self) (val_snr self)),
                ir_mix_parameter = Some (Mix2 (val_use_ir_aug self) (val_ir_fps self)),
                speech_mix_parameter =
                  Some (Mix3 (val_use_speech_aug self) (val_speech_fps self) (val_snr self)),
                reduce_items_p = None,
                reduce_batch_first_half = None,
                drop_the_last_non_full_batch = None \<rparr>,
          self))"

text \<open>
  \<^verbatim>\<open>get_test_dummy_db_ds\<close> stores the whole sorted scan first and looks at the tag
  afterwards. In the numeric branch the slice bound is \<^verbatim>\<open>int(self.datasel_test_db)\<close>:
  the object has no attribute of that name (the tag is \<^verbatim>\<open>datasel_test_dummy_db\<close>), so
  reading it raises before \<^verbatim>\<open>int\<close> is called and before the assignment.
\<close>

definition get_test_dummy_db_ds ::
  "(string \<Rightarrow> bool) \<Rightarrow> filesystem \<Rightarrow> dataset \<Rightarrow> (error + policy) \<times> dataset" where
  "get_test_dummy_db_ds beyond_ascii files self =
     (let full = sorted_glob files
                   (source_root_dir self @ ''test-dummy-db-100k-full/'' @ ''**/*.wav'');
          self = self\<lparr>ts_dummy_db_source_fps := Some full\<rparr>;
          tag = datasel_test_dummy_db self
      in case (if tag \<in> set [''10k_full'', ''10k_30s''] then Inr (slice_to full 10000)
               else if tag = ''100k_full_icassp'' then Inr full
               else if isnumeric beyond_ascii tag then Inl (AttributeError ''datasel_test_db'')
               else Inl (NotImplementedError tag)) of
           Inl e \<Rightarrow> (Inl e, self)
         | Inr kept \<Rightarrow>
             (let self = self\<lparr>ts_dummy_db_source_fps := Some kept\<rparr>
              in (Inr (plain_policy self kept), self)))"

text \<open>
  \<^verbatim>\<open>get_test_query_db_ds\<close>: the argument \<^verbatim>\<open>datasel\<close> is \<^verbatim>\<open>None\<close> or a string. When it
  is true (a string that is not empty) the statement \<^verbatim>\<open>self.datasel\<close> reads an attribute
  that the object does not have.
\<close>

definition get_test_query_db_ds ::
  "filesystem \<Rightarrow> string option \<Rightarrow> dataset \<Rightarrow> (error + policy \<times> policy) \<times> dataset" where
  "get_test_query_db_ds files datasel self =
     (if datasel \<noteq> None \<and> datasel \<noteq> Some []
      then (Inl (AttributeError ''datasel''), self)
      else if datasel_test_query_db self = ''unseen_icassp'' then
        (let q = sorted_glob files
                   (source_root_dir self @ ''test-query-db-500-30s/'' @ ''query/**/*.wav'');
             d = sorted_glob files
                   (source_root_dir self @ ''test-query-db-500-30s/'' @ ''db/**/*.wav'');
             self = self\<lparr>ts_query_icassp_fps := Some q\<rparr>;
             self = self\<lparr>ts_db_icassp_fps := Some d\<rparr>
         in (Inr (plain_policy self q, plain_policy self d), self))
      else if datasel_test_query_db self = ''unseen_syn'' then
        (let u = sorted_glob files
                   (source_root_dir self @ ''val-query-db-500-30s/'' @ ''db/**/*.wav'');
             self = self\<lparr>ts_query_db_unseen_fps := Some u\<rparr>
         in (Inr (\<lparr> fns_source_event_list = u,
                      fns_mix_event_list = None,
                      bsz = ts_batch_sz self * 2,
                      n_anchor = ts_batch_sz self,
                      duration = dur self,
                      hop_kw = hop self,
                      fs_kw = fs self,
                      shuffle = False,
                      random_offset_anchor = False,
                      bg_mix_parameter =
                        Some (Mix3 (ts_use_bg_aug self) (ts_bg_fps self) (ts_snr self)),
                      ir_mix_parameter = Some (Mix2 (ts_use_ir_aug self) (ts_ir_fps self)),
                      speech_mix_parameter = Some (Mix1 False),
                      reduce_items_p = None,
                      reduce_batch_first_half = Some True,
                      drop_the_last_non_full_batch = Some False \<rparr>,
                  plain_policy self u),
             self))
      else (Inl (NotImplementedError (datasel_test_query_db self)), self))"

text \<open>
  \<^verbatim>\<open>get_custom_db_ds\<close>: a directory is scanned; otherwise the source is opened as a text
  file and read line by line, and an exception of \<^verbatim>\<open>open\<close> or of the reading leaves the
  method.
\<close>

definition get_custom_db_ds ::
  "filesystem \<Rightarrow> string \<Rightarrow> bool \<Rightarrow> dataset \<Rightarrow> (error + policy) \<times> dataset" where
  "get_custom_db_ds files source isdir self =
     (if isdir then (Inr (plain_policy self (sorted_glob files (source @ ''/**/*.wav''))), self)
      else (case read_text files source of
              Inl e \<Rightarrow> (Inl e, self)
            | Inr txt \<Rightarrow>
                (Inr (plain_policy self (sort (map split_newline_first (readlines txt)))),
                 self)))"

subsection \<open>Outcomes\<close>

text \<open>What a call returned, if it returned, and what it raised, if it raised.\<close>

definition returned :: "(error + 'a) \<times> dataset \<Rightarrow> 'a option" where
  "returned r = (case fst r of Inl e \<Rightarrow> None | Inr v \<Rightarrow> Some v)"

definition raised :: "(error + 'a) \<times> dataset \<Rightarrow> error option" where
  "raised r = (case fst r of Inl e \<Rightarrow> Some e | Inr v \<Rightarrow> None)"


subsection \<open>A concrete configuration and file system\<close>

text \<open>
  A small installation on which the theorems below are run. Under the source root
  \<^verbatim>\<open>/m/\<close> there are eight files: three in the dummy database pool, three in the
  validation pool (two of them in its \<^verbatim>\<open>db\<close> directory) and two in \<^verbatim>\<open>/m/t\<close>. There are
  two mixes, two test speech files, and a manifest of two lines in the directory
  \<^verbatim>\<open>/lists\<close>. Every augmentation is switched off.
\<close>

definition example_files :: filesystem where
  "example_files =
     \<lparr> glob = (\<lambda>pat.
         if pat = ''/m/**/*.wav''
           then [''/m/test-dummy-db-100k-full/c.wav'', ''/m/val-query-db-500-30s/db/y.wav'',
                 ''/m/t/s2.wav'', ''/m/test-dummy-db-100k-full/a.wav'',
                 ''/m/val-query-db-500-30s/query/z.wav'', ''/m/t/s1.wav'',
                 ''/m/test-dummy-db-100k-full/b.wav'', ''/m/val-query-db-500-30s/db/x.wav'']
         else if pat = ''/m/test-dummy-db-100k-full/**/*.wav''
           then [''/m/test-dummy-db-100k-full/c.wav'', ''/m/test-dummy-db-100k-full/a.wav'',
                 ''/m/test-dummy-db-100k-full/b.wav'']
         else if pat = ''/m/val-query-db-500-30s/**/*.wav''
           then [''/m/val-query-db-500-30s/db/y.wav'', ''/m/val-query-db-500-30s/query/z.wav'',
                 ''/m/val-query-db-500-30s/db/x.wav'']
         else if pat = ''/m/val-query-db-500-30s/db/**/*.wav''
           then [''/m/val-query-db-500-30s/db/y.wav'', ''/m/val-query-db-500-30s/db/x.wav'']
         else if pat = ''/m/val-query-db-500-30s/query/**/*.wav''
           then [''/m/val-query-db-500-30s/query/z.wav'']
         else if pat = ''/m/t/**/*.wav''
           then [''/m/t/s2.wav'', ''/m/t/s1.wav'']
         else if pat = ''/x/**/*.wav''
           then [''/x/m2.wav'', ''/x/m1.wav'']
         else if pat = ''/sp/**/*.wav'' \<or> pat = ''/sp/test/**/*.wav''
           then [''/sp/test/v.wav'', ''/sp/test/u.wav'']
         else []),
       read_text = (\<lambda>path.
         if path = ''/lists/db.txt''
           then Inr (''b.wav'' @ [CHR 0x0A] @ ''a.wav'' @ [CHR 0x0A])
         else if path = ''/lists'' then Inl (IsADirectoryError ''/lists'')
         else Inl (FileNotFoundError path)) \<rparr>"


definition example_cfg :: cfg where
  "example_cfg =
     \<lparr> DIR = \<lparr> SOURCE_ROOT_DIR = ''/m/'', MIX_ROOT_DIR = ''/x/'', BG_ROOT_DIR = ''/bg/'',
               IR_ROOT_DIR = ''/ir/'', SPEECH_ROOT_DIR = ''/sp/'' \<rparr>,
       DATA_SEL = \<lparr> TRAIN = ''10k_icassp'', TEST_DUMMY_DB = ''10k_full'',
                    TEST_QUERY_DB = ''unseen_syn'' \<rparr>,
       BSZ = \<lparr> TR_BATCH_SZ = 40, TR_N_ANCHOR = 8, VAL_BATCH_SZ = 20, VAL_N_ANCHOR = 10,
               TS_BATCH_SZ = 16 \<rparr>,
       MODEL = \<lparr> DUR = 1, HOP = 1 / 2, FS = 8000 \<rparr>,
       TD_AUG = \<lparr> TR_SNR = Some [0, 10], TS_SNR = Some [0, 10], VAL_SNR = Some [0, 10],
                  TR_BG_AUG = False, TS_BG_AUG = False, VAL_BG_AUG = False,
                  TR_IR_AUG = False, TS_IR_AUG = False, VAL_IR_AUG = False,
                  TR_SPEECH_AUG = False, TS_SPEECH_AUG = False, VAL_SPEECH_AUG = False \<rparr> \<rparr>"

definition example_self :: dataset where
  "example_self = fst (init example_files example_cfg)"

text \<open>The example object with three tags that no method knows.\<close>

definition bogus_self :: dataset where
  "bogus_self = example_self\<lparr>datasel_train := ''bogus'', datasel_test_dummy_db := ''bogus'',
                     datasel_test_query_db := ''bogus''\<rparr>"

text \<open>The example configuration with the training batch size and anchor count exchanged.\<close>

definition swapped_cfg :: cfg where
  "swapped_cfg = example_cfg\<lparr>BSZ := (BSZ example_cfg)\<lparr>TR_BATCH_SZ := 8, TR_N_ANCHOR := 40\<rparr>\<rparr>"

text \<open>A file system whose validation pool holds 600 files.\<close>

definition val_pool_600 :: filesystem where
  "val_pool_600 =
     \<lparr> glob = (\<lambda>pat.
         if pat = ''/m/**/*.wav'' \<or> pat = ''/m/val-query-db-500-30s/**/*.wav''
           then map (\<lambda>n. ''/m/val-query-db-500-30s/f'' @ replicate n (CHR ''a'') @ ''.wav'')
                  [0..<600]
         else []),
       read_text = (\<lambda>path. Inl (FileNotFoundError path)) \<rparr>"

text \<open>The example configuration with the pre-paired protocol.\<close>

definition icassp_cfg :: cfg where
  "icassp_cfg = example_cfg\<lparr>DATA_SEL := (DATA_SEL example_cfg)\<lparr>TEST_QUERY_DB := ''unseen_icassp''\<rparr>\<rparr>"

section \<open>Properties\<close>

subsection \<open>Sorting and slicing\<close>


lemma sorted_sorted_glob: "sorted (sorted_glob files pat)"
  by (simp add: sorted_glob_def)

lemma slice_to_nonneg: "0 \<le> k \<Longrightarrow> slice_to xs k = take (nat k) xs"
  by (simp add: slice_to_def)


lemma isnumeric_named_tags:
  "\<not> isnumeric beyond_ascii ''10k_full''"
  "\<not> isnumeric beyond_ascii ''10k_30s''"
  "\<not> isnumeric beyond_ascii ''100k_full_icassp''"
  by (simp_all add: isnumeric_def)

lemma outcome_simps:
  "returned (Inr v, s) = Some v" "returned (Inl e, s) = None"
  "raised (Inr v, s) = None" "raised (Inl e, s) = Some e"
  by (simp_all add: returned_def raised_def)

subsection \<open>The constructor in closed form\<close>

text \<open>
  A guarded assignment to an attribute is an assignment of a guarded value; with this the
  nine statements of \<^verbatim>\<open>__set_augmentation_fps\<close> collapse into one update of the object.
\<close>

lemma guarded_tr_bg_fps:
  "(if b then d\<lparr>tr_bg_fps := v\<rparr> else d) = d\<lparr>tr_bg_fps := if b then v else tr_bg_fps d\<rparr>"
  by (cases b) simp_all

lemma guarded_ts_bg_fps:
  "(if b then d\<lparr>ts_bg_fps := v\<rparr> else d) = d\<lparr>ts_bg_fps := if b then v else ts_bg_fps d\<rparr>"
  by (cases b) simp_all

lemma guarded_val_bg_fps:
  "(if b then d\<lparr>val_bg_fps := v\<rparr> else d) = d\<lparr>val_bg_fps := if b then v else val_bg_fps d\<rparr>"
  by (cases b) simp_all

lemma guarded_tr_ir_fps:
  "(if b then d\<lparr>tr_ir_fps := v\<rparr> else d) = d\<lparr>tr_ir_fps := if b then v else tr_ir_fps d\<rparr>"
  by (cases b) simp_all

lemma guarded_ts_ir_fps:
  "(if b then d\<lparr>ts_ir_fps := v\<rparr> else d) = d\<lparr>ts_ir_fps := if b then v else ts_ir_fps d\<rparr>"
  by (cases b) simp_all

lemma guarded_val_ir_fps:
  "(if b then d\<lparr>val_ir_fps := v\<rparr> else d) = d\<lparr>val_ir_fps := if b then v else val_ir_fps d\<rparr>"
  by (cases b) simp_all

lemma guarded_tr_speech_fps:
  "(if b then d\<lparr>tr_speech_fps := v\<rparr> else d) =
     d\<lparr>tr_speech_fps := if b then v else tr_speech_fps d\<rparr>"
  by (cases b) simp_all

lemma guarded_val_speech_fps:
  "(if b then d\<lparr>val_speech_fps := v\<rparr> else d) =
     d\<lparr>val_speech_fps := if b then v else val_speech_fps d\<rparr>"
  by (cases b) simp_all

lemmas guarded_assignments =
  guarded_tr_bg_fps guarded_ts_bg_fps guarded_val_bg_fps
  guarded_tr_ir_fps guarded_ts_ir_fps guarded_val_ir_fps
  guarded_tr_speech_fps guarded_val_speech_fps

lemma scan_pair:
  "scan files pat store (d, seen) = (store (sorted_glob files (pat d)) d, seen @ [pat d])"
  by (simp add: scan_def)

lemma scan_if_pair:
  "scan_if files use pat store (d, seen) =
     (if use d then store (sorted_glob files (pat d)) d else d,
      seen @ (if use d then [pat d] else []))"
  by (simp add: scan_if_def scan_def)

lemma set_augmentation_fps_closed:
  "set_augmentation_fps files (self, seen) =
    (self\<lparr>tr_bg_fps := (if tr_use_bg_aug self
                          then Some (sorted_glob files (bg_root_dir self @ ''tr/**/*.wav''))
                          else tr_bg_fps self),
          ts_bg_fps := (if ts_use_bg_aug self
                          then Some (sorted_glob files (bg_root_dir self @ ''ts/**/*.wav''))
                          else ts_bg_fps self),
          val_bg_fps := (if val_use_bg_aug self
                          then Some (sorted_glob files (bg_root_dir self @ ''tr/**/*.wav''))
                          else val_bg_fps self),
          tr_ir_fps := (if tr_use_ir_aug self
                          then Some (sorted_glob files (ir_root_dir self @ ''tr/**/*.wav''))
                          else tr_ir_fps self),
          ts_ir_fps := (if ts_use_ir_aug self
                          then Some (sorted_glob files (ir_root_dir self @ ''ts/**/*.wav''))
                          else ts_ir_fps self),
          val_ir_fps := (if val_use_ir_aug self
                          then Some (sorted_glob files (ir_root_dir self @ ''tr/**/*.wav''))
                          else val_ir_fps self),
          tr_speech_fps := (if tr_use_speech_aug self
                          then Some (sorted_glob files (speech_root_dir self @ ''train/**/*.wav''))
                          else tr_speech_fps self),
          ts_speech_fps := Some (sorted_glob files (speech_root_dir self @ ''test/**/*.wav'')),
          val_speech_fps := (if val_use_speech_aug self
                          then Some (sorted_glob files (speech_root_dir self @ ''dev/**/*.wav''))
                          else val_speech_fps self)\<rparr>,
     seen @ (if tr_use_bg_aug self then [bg_root_dir self @ ''tr/**/*.wav''] else [])
         @ (if ts_use_bg_aug self then [bg_root_dir self @ ''ts/**/*.wav''] else [])
         @ (if val_use_bg_aug self then [bg_root_dir self @ ''tr/**/*.wav''] else [])
         @ (if tr_use_ir_aug self then [ir_root_dir self @ ''tr/**/*.wav''] else [])
         @ (if ts_use_ir_aug self then [ir_root_dir self @ ''ts/**/*.wav''] else [])
         @ (if val_use_ir_aug self then [ir_root_dir self @ ''tr/**/*.wav''] else [])
         @ (if tr_use_speech_aug self then [speech_root_dir self @ ''train/**/*.wav''] else [])
         @ [speech_root_dir self @ ''test/**/*.wav'']
         @ (if val_use_speech_aug self then [speech_root_dir self @ ''dev/**/*.wav''] else []))"
  unfolding set_augmentation_fps_def Let_def
  by (simp add: scan_if_pair scan_pair guarded_assignments split del: if_split cong: if_cong)

lemma init_closed:
  "init files c =
    ((attributes_of_cfg c)
       \<lparr>tr_bg_fps := (if TR_BG_AUG (TD_AUG c)
                       then Some (sorted_glob files (BG_ROOT_DIR (DIR c) @ ''tr/**/*.wav''))
                       else None),
        ts_bg_fps := (if TS_BG_AUG (TD_AUG c)
                       then Some (sorted_glob files (BG_ROOT_DIR (DIR c) @ ''ts/**/*.wav''))
                       else None),
        val_bg_fps := (if VAL_BG_AUG (TD_AUG c)
                       then Some (sorted_glob files (BG_ROOT_DIR (DIR c) @ ''tr/**/*.wav''))
                       else None),
        tr_ir_fps := (if TR_IR_AUG (TD_AUG c)
                       then Some (sorted_glob files (IR_ROOT_DIR (DIR c) @ ''tr/**/*.wav''))
                       else None),
        ts_ir_fps := (if TS_IR_AUG (TD_AUG c)
                       then Some (sorted_glob files (IR_ROOT_DIR (DIR c) @ ''ts/**/*.wav''))
                       else None),
        val_ir_fps := (if VAL_IR_AUG (TD_AUG c)
                       then Some (sorted_glob files (IR_ROOT_DIR (DIR c) @ ''tr/**/*.wav''))
                       else None),
        tr_speech_fps := (if TR_SPEECH_AUG (TD_AUG c)
                       then Some (sorted_glob files (SPEECH_ROOT_DIR (DIR c) @ ''train/**/*.wav''))
                       else None),
        ts_speech_fps := Some (sorted_glob files (SPEECH_ROOT_DIR (DIR c) @ ''test/**/*.wav'')),
        val_speech_fps := (if VAL_SPEECH_AUG (TD_AUG c)
                       then Some (sorted_glob files (SPEECH_ROOT_DIR (DIR c) @ ''dev/**/*.wav''))
                       else None)\<rparr>,
     (if TR_BG_AUG (TD_AUG c) then [BG_ROOT_DIR (DIR c) @ ''tr/**/*.wav''] else [])
       @ (if TS_BG_AUG (TD_AUG c) then [BG_ROOT_DIR (DIR c) @ ''ts/**/*.wav''] else [])
       @ (if VAL_BG_AUG (TD_AUG c) then [BG_ROOT_DIR (DIR c) @ ''tr/**/*.wav''] else [])
       @ (if TR_IR_AUG (TD_AUG c) then [IR_ROOT_DIR (DIR c) @ ''tr/**/*.wav''] else [])
       @ (if TS_IR_AUG (TD_AUG c) then [IR_ROOT_DIR (DIR c) @ ''ts/**/*.wav''] else [])
       @ (if VAL_IR_AUG (TD_AUG c) then [IR_ROOT_DIR (DIR c) @ ''tr/**/*.wav''] else [])
       @ (if TR_SPEECH_AUG (TD_AUG c) then [SPEECH_ROOT_DIR (DIR c) @ ''train/**/*.wav''] else [])
       @ [SPEECH_ROOT_DIR (DIR c) @ ''test/**/*.wav'']
       @ (if VAL_SPEECH_AUG (TD_AUG c) then [SPEECH_ROOT_DIR (DIR c) @ ''dev/**/*.wav''] else []))"
  unfolding init_def set_augmentation_fps_closed
  by (simp add: attributes_of_cfg_def split del: if_split cong: if_cong)

lemma init_toggles:
  "tr_use_bg_aug (fst (init files c)) = TR_BG_AUG (TD_AUG c)"
  "ts_use_bg_aug (fst (init files c)) = TS_BG_AUG (TD_AUG c)"
  "val_use_bg_aug (fst (init files c)) = VAL_BG_AUG (TD_AUG c)"
  "tr_use_ir_aug (fst (init files c)) = TR_IR_AUG (TD_AUG c)"
  "ts_use_ir_aug (fst (init files c)) = TS_IR_AUG (TD_AUG c)"
  "val_use_ir_aug (fst (init files c)) = VAL_IR_AUG (TD_AUG c)"
  "tr_use_speech_aug (fst (init files c)) = TR_SPEECH_AUG (TD_AUG c)"
  "ts_use_speech_aug (fst (init files c)) = TS_SPEECH_AUG (TD_AUG c)"
  "val_use_speech_aug (fst (init files c)) = VAL_SPEECH_AUG (TD_AUG c)"
  "tr_snr (fst (init files c)) = TR_SNR (TD_AUG c)"
  "ts_snr (fst (init files c)) = TS_SNR (TD_AUG c)"
  "val_snr (fst (init files c)) = VAL_SNR (TD_AUG c)"
  "datasel_test_query_db (fst (init files c)) = TEST_QUERY_DB (DATA_SEL c)"
  by (simp_all add: init_closed attributes_of_cfg_def)

lemma init_sizes:
  "tr_batch_sz (fst (init files c)) = TR_BATCH_SZ (BSZ c)"
  "tr_n_anchor (fst (init files c)) = TR_N_ANCHOR (BSZ c)"
  "val_batch_sz (fst (init files c)) = VAL_BATCH_SZ (BSZ c)"
  "val_n_anchor (fst (init files c)) = VAL_N_ANCHOR (BSZ c)"
  "ts_batch_sz (fst (init files c)) = TS_BATCH_SZ (BSZ c)"
  by (simp_all add: init_closed attributes_of_cfg_def)


subsection \<open>The augmentation parameters that the methods pass\<close>





subsection \<open>The example object\<close>

lemma example_self_eq:
  "example_self =
     (attributes_of_cfg example_cfg)
       \<lparr>ts_speech_fps := Some [''/sp/test/u.wav'', ''/sp/test/v.wav'']\<rparr>"
  by (simp add: example_self_def init_closed example_cfg_def attributes_of_cfg_def
        sorted_glob_def example_files_def)

lemma example_self_attrs:
  "source_root_dir example_self = ''/m/''"
  "mix_root_dir example_self = ''/x/''"
  "datasel_train example_self = ''10k_icassp''"
  "datasel_test_dummy_db example_self = ''10k_full''"
  "datasel_test_query_db example_self = ''unseen_syn''"
  "tr_batch_sz example_self = 40"
  "tr_n_anchor example_self = 8"
  "val_batch_sz example_self = 20"
  "val_n_anchor example_self = 10"
  "ts_batch_sz example_self = 16"
  "dur example_self = 1"
  "hop example_self = 1 / 2"
  "fs example_self = 8000"
  "tr_snr example_self = Some [0, 10]"
  "ts_snr example_self = Some [0, 10]"
  "val_snr example_self = Some [0, 10]"
  by (simp_all add: example_self_eq attributes_of_cfg_def example_cfg_def)


lemma example_self_lists:
  "tr_bg_fps example_self = None"
  "ts_bg_fps example_self = None"
  "val_bg_fps example_self = None"
  "tr_ir_fps example_self = None"
  "ts_ir_fps example_self = None"
  "val_ir_fps example_self = None"
  "tr_speech_fps example_self = None"
  "ts_speech_fps example_self = Some [''/sp/test/u.wav'', ''/sp/test/v.wav'']"
  "val_speech_fps example_self = None"
  "tr_source_fps example_self = None"
  "val_source_fps example_self = None"
  "tr_mix_fps example_self = None"
  "val_mix_fps example_self = None"
  "ts_dummy_db_source_fps example_self = None"
  "ts_query_icassp_fps example_self = None"
  "ts_db_icassp_fps example_self = None"
  "ts_query_db_unseen_fps example_self = None"
  by (simp_all add: example_self_eq attributes_of_cfg_def example_cfg_def)

subsection \<open>The methods on the example object\<close>

lemma plain_policy_anchor: "n_anchor (plain_policy self l) = bsz (plain_policy self l)"
  by (simp add: plain_policy_def)



lemma example_returns:
  "returned (get_train_ds example_files 0 example_self) \<noteq> None"
  "returned (get_val_ds example_files 500 example_self) \<noteq> None"
  "returned (get_test_dummy_db_ds latin1_numeric example_files example_self) \<noteq> None"
  "returned (get_test_query_db_ds example_files None example_self) \<noteq> None"
  "returned (get_custom_db_ds example_files ''/lists/db.txt'' False example_self) \<noteq> None"
  by (simp_all add: get_train_ds_def get_val_ds_def get_test_dummy_db_ds_def
        get_test_query_db_ds_def get_custom_db_ds_def Let_def outcome_simps
        example_self_attrs example_files_def)

lemma get_val_ds_returns:
  "get_val_ds files max_song self =
     (Inr (the (returned (get_val_ds files max_song self))),
      self\<lparr>val_source_fps :=
        Some (slice_to
               (sorted_glob files (source_root_dir self @ ''val-query-db-500-30s/'' @ ''**/*.wav''))
               max_song)\<rparr>)"
  "fns_source_event_list (the (returned (get_val_ds files max_song self))) =
     slice_to (sorted_glob files (source_root_dir self @ ''val-query-db-500-30s/'' @ ''**/*.wav''))
       max_song"
  by (simp_all add: get_val_ds_def Let_def outcome_simps)

lemma example_cfg_toggles:
  "TR_BG_AUG (TD_AUG example_cfg) = False"
  "TS_BG_AUG (TD_AUG example_cfg) = False"
  "VAL_BG_AUG (TD_AUG example_cfg) = False"
  "TR_IR_AUG (TD_AUG example_cfg) = False"
  "TS_IR_AUG (TD_AUG example_cfg) = False"
  "VAL_IR_AUG (TD_AUG example_cfg) = False"
  "TR_SPEECH_AUG (TD_AUG example_cfg) = False"
  "TS_SPEECH_AUG (TD_AUG example_cfg) = False"
  "VAL_SPEECH_AUG (TD_AUG example_cfg) = False"
  "TR_SNR (TD_AUG example_cfg) = Some [0, 10]"
  "TS_SNR (TD_AUG example_cfg) = Some [0, 10]"
  "VAL_SNR (TD_AUG example_cfg) = Some [0, 10]"
  "TEST_QUERY_DB (DATA_SEL example_cfg) = ''unseen_syn''"
  "SPEECH_ROOT_DIR (DIR example_cfg) = ''/sp/''"
  by (simp_all add: example_cfg_def)

lemma icassp_cfg_attrs:
  "TEST_QUERY_DB (DATA_SEL icassp_cfg) = ''unseen_icassp''"
  "SOURCE_ROOT_DIR (DIR icassp_cfg) = ''/m/''"
  by (simp_all add: icassp_cfg_def example_cfg_def)

lemma icassp_returns:
  "returned (get_test_query_db_ds example_files None (fst (init example_files icassp_cfg))) \<noteq> None"
  by (simp add: get_test_query_db_ds_def Let_def outcome_simps init_closed
        attributes_of_cfg_def icassp_cfg_attrs)

subsection \<open>Two listings of the same files; a method called twice\<close>







section \<open>The claims\<close>

subsection \<open>C1: a numeric tag for the dummy database\<close>

text \<open>
  C1 says that for a numeric tag \<^verbatim>\<open>get_test_dummy_db_ds\<close> returns the sorted pool cut to
  that count and does not fail. The code does not get there: for every numeric tag the
  call raises \<^verbatim>\<open>AttributeError\<close> on \<^verbatim>\<open>self.datasel_test_db\<close>, and leaves the whole
  sorted scan in \<^verbatim>\<open>ts_dummy_db_source_fps\<close>.
\<close>

theorem dummy_db_numeric_tag_raises:
  assumes "isnumeric beyond_ascii (datasel_test_dummy_db self)"
  shows "get_test_dummy_db_ds beyond_ascii files self =
           (Inl (AttributeError ''datasel_test_db''),
            self\<lparr>ts_dummy_db_source_fps :=
              Some (sorted_glob files
                     (source_root_dir self @ ''test-dummy-db-100k-full/'' @ ''**/*.wav''))\<rparr>)"
proof -
  from assms isnumeric_named_tags [of beyond_ascii]
  have "datasel_test_dummy_db self \<noteq> ''10k_full''"
    and "datasel_test_dummy_db self \<noteq> ''10k_30s''"
    and "datasel_test_dummy_db self \<noteq> ''100k_full_icassp''"
    by auto
  with assms show ?thesis
    by (simp add: get_test_dummy_db_ds_def Let_def)
qed

text \<open>
  The tag \<^verbatim>\<open>"500"\<close> on the example pool of three files, and the tag that is the one
  character superscript two, which \<^verbatim>\<open>str.isnumeric\<close> also accepts.
\<close>

theorem dummy_db_numeric_tag_500:
  "isnumeric latin1_numeric ''500'' \<and>
   get_test_dummy_db_ds latin1_numeric example_files
       (example_self\<lparr>datasel_test_dummy_db := ''500''\<rparr>) =
     (Inl (AttributeError ''datasel_test_db''),
      example_self\<lparr>datasel_test_dummy_db := ''500'',
                   ts_dummy_db_source_fps :=
                     Some [''/m/test-dummy-db-100k-full/a.wav'',
                           ''/m/test-dummy-db-100k-full/b.wav'',
                           ''/m/test-dummy-db-100k-full/c.wav'']\<rparr>) \<and>
   isnumeric latin1_numeric [CHR 0xB2] \<and>
   get_test_dummy_db_ds latin1_numeric example_files
       (example_self\<lparr>datasel_test_dummy_db := [CHR 0xB2]\<rparr>) =
     (Inl (AttributeError ''datasel_test_db''),
      example_self\<lparr>datasel_test_dummy_db := [CHR 0xB2],
                   ts_dummy_db_source_fps :=
                     Some [''/m/test-dummy-db-100k-full/a.wav'',
                           ''/m/test-dummy-db-100k-full/b.wav'',
                           ''/m/test-dummy-db-100k-full/c.wav'']\<rparr>)"
proof -
  have num: "isnumeric latin1_numeric ''500''"
    by (simp add: isnumeric_def)
  then have "isnumeric latin1_numeric
      (datasel_test_dummy_db (example_self\<lparr>datasel_test_dummy_db := ''500''\<rparr>))"
    by simp
  note digits = dummy_db_numeric_tag_raises [OF this, of example_files]
  have sup: "isnumeric latin1_numeric [CHR 0xB2]"
    by (simp add: isnumeric_def latin1_numeric_def)
  then have "isnumeric latin1_numeric
      (datasel_test_dummy_db (example_self\<lparr>datasel_test_dummy_db := [CHR 0xB2]\<rparr>))"
    by simp
  note superscript = dummy_db_numeric_tag_raises [OF this, of example_files]
  from digits superscript num sup show ?thesis
    by (simp add: example_self_attrs sorted_glob_def example_files_def)
qed

subsection \<open>C2: a tag that no method knows\<close>

text \<open>
  C2 says that on an unknown tag each of the three tag-driven methods raises the
  unsupported-selection error and leaves every stored file list as it was. The amended
  claim, proved here: \<^verbatim>\<open>get_train_ds\<close> and \<^verbatim>\<open>get_test_query_db_ds\<close> (called without
  \<^verbatim>\<open>datasel\<close>) raise \<^verbatim>\<open>NotImplementedError\<close> on the tag and leave the object unchanged;
  \<^verbatim>\<open>get_test_dummy_db_ds\<close>, on a tag that is none of the three named tags and that
  \<^verbatim>\<open>str.isnumeric\<close> does not accept, raises the same error after it has stored the whole
  sorted scan of the pool in \<^verbatim>\<open>ts_dummy_db_source_fps\<close>, and changes nothing else.
\<close>

theorem unsupported_tag_raises:
  "(datasel_train self \<noteq> ''10k_icassp'' \<and> datasel_train self \<noteq> ''audible'' \<longrightarrow>
      get_train_ds files p self = (Inl (NotImplementedError (datasel_train self)), self)) \<and>
   ((datasel = None \<or> datasel = Some []) \<and>
    datasel_test_query_db self \<noteq> ''unseen_icassp'' \<and>
    datasel_test_query_db self \<noteq> ''unseen_syn'' \<longrightarrow>
      get_test_query_db_ds files datasel self =
        (Inl (NotImplementedError (datasel_test_query_db self)), self)) \<and>
   (datasel_test_dummy_db self \<noteq> ''10k_full'' \<and> datasel_test_dummy_db self \<noteq> ''10k_30s'' \<and>
    datasel_test_dummy_db self \<noteq> ''100k_full_icassp'' \<and>
    \<not> isnumeric beyond_ascii (datasel_test_dummy_db self) \<longrightarrow>
      get_test_dummy_db_ds beyond_ascii files self =
        (Inl (NotImplementedError (datasel_test_dummy_db self)),
         self\<lparr>ts_dummy_db_source_fps :=
           Some (sorted_glob files
                  (source_root_dir self @ ''test-dummy-db-100k-full/'' @ ''**/*.wav''))\<rparr>))"
proof (intro conjI impI)
  assume "datasel_train self \<noteq> ''10k_icassp'' \<and> datasel_train self \<noteq> ''audible''"
  then show "get_train_ds files p self = (Inl (NotImplementedError (datasel_train self)), self)"
    by (simp add: get_train_ds_def)
next
  assume "(datasel = None \<or> datasel = Some []) \<and>
    datasel_test_query_db self \<noteq> ''unseen_icassp'' \<and>
    datasel_test_query_db self \<noteq> ''unseen_syn''"
  then show "get_test_query_db_ds files datasel self =
        (Inl (NotImplementedError (datasel_test_query_db self)), self)"
    by (auto simp add: get_test_query_db_ds_def)
next
  assume "datasel_test_dummy_db self \<noteq> ''10k_full'' \<and> datasel_test_dummy_db self \<noteq> ''10k_30s'' \<and>
    datasel_test_dummy_db self \<noteq> ''100k_full_icassp'' \<and>
    \<not> isnumeric beyond_ascii (datasel_test_dummy_db self)"
  then show "get_test_dummy_db_ds beyond_ascii files self =
        (Inl (NotImplementedError (datasel_test_dummy_db self)),
         self\<lparr>ts_dummy_db_source_fps :=
           Some (sorted_glob files
                  (source_root_dir self @ ''test-dummy-db-100k-full/'' @ ''**/*.wav''))\<rparr>)"
    by (simp add: get_test_dummy_db_ds_def Let_def)
qed

text \<open>The three methods on the example object with the tag \<^verbatim>\<open>"bogus"\<close>.\<close>

theorem unsupported_tag_raises_witness:
  "\<not> isnumeric latin1_numeric ''bogus'' \<and>
   get_train_ds example_files 0 bogus_self = (Inl (NotImplementedError ''bogus''), bogus_self) \<and>
   get_test_query_db_ds example_files None bogus_self =
     (Inl (NotImplementedError ''bogus''), bogus_self) \<and>
   get_test_dummy_db_ds latin1_numeric example_files bogus_self =
     (Inl (NotImplementedError ''bogus''),
      bogus_self\<lparr>ts_dummy_db_source_fps :=
        Some [''/m/test-dummy-db-100k-full/a.wav'', ''/m/test-dummy-db-100k-full/b.wav'',
              ''/m/test-dummy-db-100k-full/c.wav'']\<rparr>)"
proof -
  have tags: "datasel_train bogus_self = ''bogus''" "datasel_test_dummy_db bogus_self = ''bogus''"
    "datasel_test_query_db bogus_self = ''bogus''" "source_root_dir bogus_self = ''/m/''"
    by (simp_all add: bogus_self_def example_self_attrs)
  have nn: "\<not> isnumeric latin1_numeric ''bogus''"
    by (simp add: isnumeric_def)
  from unsupported_tag_raises [of bogus_self example_files 0 None latin1_numeric] nn
  show ?thesis
    by (simp add: tags sorted_glob_def example_files_def)
qed

text \<open>
  Against C2 as stated: the dummy-database method on the tag \<^verbatim>\<open>"bogus"\<close> raises, and the
  file list that was \<^verbatim>\<open>None\<close> before the call holds three paths after it.
\<close>

theorem unsupported_tag_dummy_db_side_effect:
  "\<not> isnumeric latin1_numeric ''bogus'' \<and>
   raised (get_test_dummy_db_ds latin1_numeric example_files (example_self\<lparr>datasel_test_dummy_db := ''bogus''\<rparr>))
     = Some (NotImplementedError ''bogus'') \<and>
   ts_dummy_db_source_fps (example_self\<lparr>datasel_test_dummy_db := ''bogus''\<rparr>) = None \<and>
   ts_dummy_db_source_fps
     (snd (get_test_dummy_db_ds latin1_numeric example_files (example_self\<lparr>datasel_test_dummy_db := ''bogus''\<rparr>)))
     = Some [''/m/test-dummy-db-100k-full/a.wav'', ''/m/test-dummy-db-100k-full/b.wav'',
             ''/m/test-dummy-db-100k-full/c.wav'']"
  by (simp add: get_test_dummy_db_ds_def Let_def isnumeric_def outcome_simps
        example_self_attrs example_self_lists sorted_glob_def example_files_def)

subsection \<open>C3: anchor count and batch size\<close>

text \<open>
  C3 says that for every configuration the anchor count of every policy is at most its
  batch size. The class checks no such thing. The amended claim, proved here for every
  configuration and every object: the constructor copies the five configured numbers;
  the train and validation policies carry the configured pair of batch size and anchor
  count unchanged, so that their anchor count is at most their batch size exactly when
  the configured pair is so; the dummy-database, custom and database policies and the
  pre-paired query policy have the test batch size as batch size and as anchor count; the
  synthesized query policy has twice the test batch size as batch size and the test
  batch size as anchor count, so that its anchor count is at most its batch size exactly
  when the test batch size is not negative.
\<close>

theorem anchor_count_and_batch_size:
  "tr_batch_sz (fst (init files c)) = TR_BATCH_SZ (BSZ c) \<and>
   tr_n_anchor (fst (init files c)) = TR_N_ANCHOR (BSZ c) \<and>
   val_batch_sz (fst (init files c)) = VAL_BATCH_SZ (BSZ c) \<and>
   val_n_anchor (fst (init files c)) = VAL_N_ANCHOR (BSZ c) \<and>
   ts_batch_sz (fst (init files c)) = TS_BATCH_SZ (BSZ c) \<and>
   (\<forall>pol. returned (get_train_ds files p self) = Some pol \<longrightarrow>
      bsz pol = tr_batch_sz self \<and> n_anchor pol = tr_n_anchor self \<and>
      (n_anchor pol \<le> bsz pol) = (tr_n_anchor self \<le> tr_batch_sz self)) \<and>
   (\<forall>pol. returned (get_val_ds files max_song self) = Some pol \<longrightarrow>
      bsz pol = val_batch_sz self \<and> n_anchor pol = val_n_anchor self \<and>
      (n_anchor pol \<le> bsz pol) = (val_n_anchor self \<le> val_batch_sz self)) \<and>
   (\<forall>pol. returned (get_test_dummy_db_ds beyond_ascii files self) = Some pol \<longrightarrow>
      bsz pol = ts_batch_sz self \<and> n_anchor pol = ts_batch_sz self) \<and>
   (\<forall>pol. returned (get_custom_db_ds files source isdir self) = Some pol \<longrightarrow>
      bsz pol = ts_batch_sz self \<and> n_anchor pol = ts_batch_sz self) \<and>
   (\<forall>q d. returned (get_test_query_db_ds files datasel self) = Some (q, d) \<longrightarrow>
      bsz d = ts_batch_sz self \<and> n_anchor d = ts_batch_sz self \<and>
      (datasel_test_query_db self = ''unseen_icassp'' \<longrightarrow>
         bsz q = ts_batch_sz self \<and> n_anchor q = ts_batch_sz self) \<and>
      (datasel_test_query_db self \<noteq> ''unseen_icassp'' \<longrightarrow>
         bsz q = ts_batch_sz self * 2 \<and> n_anchor q = ts_batch_sz self \<and>
         (n_anchor q \<le> bsz q) = (0 \<le> ts_batch_sz self)))"
proof -
  have tr: "bsz pol = tr_batch_sz self \<and> n_anchor pol = tr_n_anchor self \<and>
      (n_anchor pol \<le> bsz pol) = (tr_n_anchor self \<le> tr_batch_sz self)"
    if "returned (get_train_ds files p self) = Some pol" for pol
    using that by (auto simp add: get_train_ds_def Let_def outcome_simps split: if_splits)
  have va: "bsz pol = val_batch_sz self \<and> n_anchor pol = val_n_anchor self \<and>
      (n_anchor pol \<le> bsz pol) = (val_n_anchor self \<le> val_batch_sz self)"
    if "returned (get_val_ds files max_song self) = Some pol" for pol
    using that by (auto simp add: get_val_ds_def Let_def outcome_simps)
  have du: "bsz pol = ts_batch_sz self \<and> n_anchor pol = ts_batch_sz self"
    if "returned (get_test_dummy_db_ds beyond_ascii files self) = Some pol" for pol
    using that
    by (auto simp add: get_test_dummy_db_ds_def Let_def outcome_simps plain_policy_def
          split: if_splits)
  have cu: "bsz pol = ts_batch_sz self \<and> n_anchor pol = ts_batch_sz self"
    if "returned (get_custom_db_ds files source isdir self) = Some pol" for pol
    using that
    by (auto simp add: get_custom_db_ds_def outcome_simps plain_policy_def
          split: if_splits sum.splits)
  have qd: "bsz d = ts_batch_sz self \<and> n_anchor d = ts_batch_sz self \<and>
      (datasel_test_query_db self = ''unseen_icassp'' \<longrightarrow>
         bsz q = ts_batch_sz self \<and> n_anchor q = ts_batch_sz self) \<and>
      (datasel_test_query_db self \<noteq> ''unseen_icassp'' \<longrightarrow>
         bsz q = ts_batch_sz self * 2 \<and> n_anchor q = ts_batch_sz self \<and>
         (n_anchor q \<le> bsz q) = (0 \<le> ts_batch_sz self))"
    if "returned (get_test_query_db_ds files datasel self) = Some (q, d)" for q d
    using that
    by (auto simp add: get_test_query_db_ds_def Let_def outcome_simps plain_policy_def
          split: if_splits)
  from tr va du cu qd show ?thesis
    by (simp only: init_sizes simp_thms) blast
qed

text \<open>
  The five methods on the example object, the pre-paired protocol, and the configuration
  with a training batch size of 8 and 40 anchors.
\<close>

theorem anchor_count_and_batch_size_witness:
  "map_option (\<lambda>pol. (bsz pol, n_anchor pol))
     (returned (get_train_ds example_files 0 example_self)) = Some (40, 8) \<and>
   map_option (\<lambda>pol. (bsz pol, n_anchor pol))
     (returned (get_val_ds example_files 500 example_self)) = Some (20, 10) \<and>
   map_option (\<lambda>pol. (bsz pol, n_anchor pol))
     (returned (get_test_dummy_db_ds latin1_numeric example_files example_self)) = Some (16, 16) \<and>
   map_option (\<lambda>pol. (bsz pol, n_anchor pol))
     (returned (get_custom_db_ds example_files ''/lists/db.txt'' False example_self))
     = Some (16, 16) \<and>
   datasel_test_query_db example_self \<noteq> ''unseen_icassp'' \<and>
   map_option (\<lambda>(q, d). ((bsz q, n_anchor q), (bsz d, n_anchor d)))
     (returned (get_test_query_db_ds example_files None example_self))
     = Some ((32, 16), (16, 16)) \<and>
   datasel_test_query_db (fst (init example_files icassp_cfg)) = ''unseen_icassp'' \<and>
   map_option (\<lambda>(q, d). ((bsz q, n_anchor q), (bsz d, n_anchor d)))
     (returned (get_test_query_db_ds example_files None (fst (init example_files icassp_cfg))))
     = Some ((16, 16), (16, 16)) \<and>
   tr_batch_sz (fst (init example_files swapped_cfg)) = 8 \<and>
   tr_n_anchor (fst (init example_files swapped_cfg)) = 40"
proof -
  let ?ic = "fst (init example_files icassp_cfg)"
  let ?tr = "returned (get_train_ds example_files 0 example_self)"
  let ?va = "returned (get_val_ds example_files 500 example_self)"
  let ?du = "returned (get_test_dummy_db_ds latin1_numeric example_files example_self)"
  let ?cu = "returned (get_custom_db_ds example_files ''/lists/db.txt'' False example_self)"
  let ?qd = "returned (get_test_query_db_ds example_files None example_self)"
  let ?pp = "returned (get_test_query_db_ds example_files None ?ic)"
  note ex = anchor_count_and_batch_size
    [where files = example_files and c = swapped_cfg and p = 0 and self = example_self
       and max_song = 500 and beyond_ascii = latin1_numeric and source = "''/lists/db.txt''"
       and isdir = False and datasel = None]
  note ic = anchor_count_and_batch_size
    [where files = example_files and c = icassp_cfg and p = 0 and self = ?ic
       and max_song = 500 and beyond_ascii = latin1_numeric and source = "''/lists/db.txt''"
       and isdir = False and datasel = None]
  have syn: "datasel_test_query_db example_self \<noteq> ''unseen_icassp''"
    by (simp add: example_self_attrs)
  have pre: "datasel_test_query_db ?ic = ''unseen_icassp''"
    by (simp add: init_toggles icassp_cfg_attrs)
  from ic have "ts_batch_sz ?ic = TS_BATCH_SZ (BSZ icassp_cfg)"
    by blast
  then have size: "ts_batch_sz ?ic = 16"
    by (simp add: icassp_cfg_def example_cfg_def)
  from ex have "tr_batch_sz (fst (init example_files swapped_cfg)) = TR_BATCH_SZ (BSZ swapped_cfg)"
    and "tr_n_anchor (fst (init example_files swapped_cfg)) = TR_N_ANCHOR (BSZ swapped_cfg)"
    by blast+
  then have sw: "tr_batch_sz (fst (init example_files swapped_cfg)) = 8"
    "tr_n_anchor (fst (init example_files swapped_cfg)) = 40"
    by (simp_all add: swapped_cfg_def)
  from example_returns(1) obtain p1 where p1: "?tr = Some p1"
    by blast
  from example_returns(2) obtain p2 where p2: "?va = Some p2"
    by blast
  from example_returns(3) obtain p3 where p3: "?du = Some p3"
    by blast
  from example_returns(5) obtain p4 where p4: "?cu = Some p4"
    by blast
  from example_returns(4) obtain q d where p5: "?qd = Some (q, d)"
    by (cases ?qd) auto
  from icassp_returns obtain q' d' where p6: "?pp = Some (q', d')"
    by (cases ?pp) auto
  from ex p1 have r1: "bsz p1 = tr_batch_sz example_self \<and> n_anchor p1 = tr_n_anchor example_self"
    by blast
  from ex p2 have r2: "bsz p2 = val_batch_sz example_self \<and> n_anchor p2 = val_n_anchor example_self"
    by blast
  from ex p3 have r3: "bsz p3 = ts_batch_sz example_self \<and> n_anchor p3 = ts_batch_sz example_self"
    by blast
  from ex p4 have r4: "bsz p4 = ts_batch_sz example_self \<and> n_anchor p4 = ts_batch_sz example_self"
    by blast
  from ex p5 syn have r5: "bsz d = ts_batch_sz example_self \<and> n_anchor d = ts_batch_sz example_self \<and>
      bsz q = ts_batch_sz example_self * 2 \<and> n_anchor q = ts_batch_sz example_self"
    by blast
  from ic p6 pre have r6: "bsz d' = ts_batch_sz ?ic \<and> n_anchor d' = ts_batch_sz ?ic \<and>
      bsz q' = ts_batch_sz ?ic \<and> n_anchor q' = ts_batch_sz ?ic"
    by blast
  show ?thesis
    unfolding p1 p2 p3 p4 p5 p6
    using syn pre sw r1 r2 r3 r4 r5 r6 by (simp add: example_self_attrs size)
qed

text \<open>
  Against C3 as stated: a configuration with a training batch size of 8 and 40 anchors
  gives a training policy with 40 anchors in a batch of 8.
\<close>

theorem train_anchor_count_exceeds_batch_size:
  "map_option bsz (returned (get_train_ds example_files 0 (fst (init example_files swapped_cfg))))
     = Some 8 \<and>
   map_option n_anchor (returned (get_train_ds example_files 0 (fst (init example_files swapped_cfg))))
     = Some 40"
  by (simp add: get_train_ds_def Let_def outcome_simps init_closed swapped_cfg_def
        example_cfg_def attributes_of_cfg_def)

subsection \<open>C4: a disabled augmentation\<close>




subsection \<open>C5: the synthesized protocol\<close>

text \<open>
  C5: under the tag \<^verbatim>\<open>unseen_syn\<close>, \<^verbatim>\<open>get_test_query_db_ds\<close> (called without
  \<^verbatim>\<open>datasel\<close>) returns a query policy and a database policy; the query batch size is
  twice the database batch size, both anchor counts equal the configured test batch
  size, the query policy has \<^verbatim>\<open>reduce_batch_first_half\<close> set, and both file lists are the
  one sorted pool, which the call also stores in \<^verbatim>\<open>ts_query_db_unseen_fps\<close>.
\<close>

theorem synthesized_protocol_policies:
  assumes "datasel_test_query_db self = ''unseen_syn''"
    and "datasel = None \<or> datasel = Some []"
  shows "\<exists>q d. get_test_query_db_ds files datasel self =
           (Inr (q, d),
            self\<lparr>ts_query_db_unseen_fps :=
              Some (sorted_glob files
                     (source_root_dir self @ ''val-query-db-500-30s/'' @ ''db/**/*.wav''))\<rparr>) \<and>
         bsz q = 2 * bsz d \<and>
         n_anchor q = n_anchor d \<and>
         n_anchor q = ts_batch_sz self \<and>
         reduce_batch_first_half q = Some True \<and>
         fns_source_event_list q =
           sorted_glob files (source_root_dir self @ ''val-query-db-500-30s/'' @ ''db/**/*.wav'') \<and>
         fns_source_event_list d = fns_source_event_list q"
  using assms by (auto simp add: get_test_query_db_ds_def Let_def plain_policy_def)

text \<open>The example object: a test batch size of 16 and a pool of two files.\<close>

theorem synthesized_protocol_policies_witness:
  "datasel_test_query_db example_self = ''unseen_syn'' \<and>
   returned (get_test_query_db_ds example_files None example_self) \<noteq> None \<and>
   bsz (fst (the (returned (get_test_query_db_ds example_files None example_self)))) = 32 \<and>
   bsz (snd (the (returned (get_test_query_db_ds example_files None example_self)))) = 16 \<and>
   n_anchor (fst (the (returned (get_test_query_db_ds example_files None example_self)))) = 16 \<and>
   n_anchor (snd (the (returned (get_test_query_db_ds example_files None example_self)))) = 16 \<and>
   reduce_batch_first_half
     (fst (the (returned (get_test_query_db_ds example_files None example_self)))) = Some True \<and>
   fns_source_event_list
     (fst (the (returned (get_test_query_db_ds example_files None example_self)))) =
       [''/m/val-query-db-500-30s/db/x.wav'', ''/m/val-query-db-500-30s/db/y.wav''] \<and>
   fns_source_event_list
     (snd (the (returned (get_test_query_db_ds example_files None example_self)))) =
       [''/m/val-query-db-500-30s/db/x.wav'', ''/m/val-query-db-500-30s/db/y.wav'']"
proof -
  have tag: "datasel_test_query_db example_self = ''unseen_syn''"
    by (simp add: example_self_attrs)
  from synthesized_protocol_policies [OF tag, of None example_files]
  obtain q d s where r: "get_test_query_db_ds example_files None example_self = (Inr (q, d), s)"
    and facts: "bsz q = 2 * bsz d" "n_anchor q = n_anchor d" "n_anchor q = ts_batch_sz example_self"
      "reduce_batch_first_half q = Some True"
      "fns_source_event_list q =
         sorted_glob example_files
           (source_root_dir example_self @ ''val-query-db-500-30s/'' @ ''db/**/*.wav'')"
      "fns_source_event_list d = fns_source_event_list q"
    by auto
  have "bsz d = 16"
    using r by (auto simp add: get_test_query_db_ds_def Let_def plain_policy_def
        example_self_attrs)
  with r facts tag show ?thesis
    by (simp add: outcome_simps example_self_attrs sorted_glob_def example_files_def)
qed

subsection \<open>C6: a custom source\<close>




subsection \<open>C7: the validation cap\<close>

text \<open>
  C7 says that for every value of \<^verbatim>\<open>max_song\<close> the validation list is the sorted pool
  cut to the smaller of \<^verbatim>\<open>max_song\<close> and the pool size. The amended claim, proved here,
  is the same for every \<^verbatim>\<open>max_song\<close> that is not negative: \<^verbatim>\<open>get_val_ds\<close> returns, its
  file list is the first \<^verbatim>\<open>max_song\<close> entries of the sorted pool, of length
  \<open>min max_song (pool size)\<close>, sorted, and the same list is stored in
  \<^verbatim>\<open>val_source_fps\<close>.
\<close>

theorem validation_cap:
  assumes "0 \<le> max_song"
  shows "\<exists>pol. get_val_ds files max_song self =
           (Inr pol, self\<lparr>val_source_fps := Some (fns_source_event_list pol)\<rparr>) \<and>
         fns_source_event_list pol =
           take (nat max_song)
             (sorted_glob files (source_root_dir self @ ''val-query-db-500-30s/'' @ ''**/*.wav'')) \<and>
         length (fns_source_event_list pol) =
           min (nat max_song)
             (length (glob files (source_root_dir self @ ''val-query-db-500-30s/'' @ ''**/*.wav''))) \<and>
         sorted (fns_source_event_list pol)"
proof -
  let ?pool = "sorted_glob files (source_root_dir self @ ''val-query-db-500-30s/'' @ ''**/*.wav'')"
  let ?pol = "the (returned (get_val_ds files max_song self))"
  from assms have cut: "slice_to ?pool max_song = take (nat max_song) ?pool"
    by (rule slice_to_nonneg)
  have "get_val_ds files max_song self =
          (Inr ?pol, self\<lparr>val_source_fps := Some (fns_source_event_list ?pol)\<rparr>)"
    using get_val_ds_returns [of files max_song self] by simp
  moreover have "fns_source_event_list ?pol = take (nat max_song) ?pool"
    using get_val_ds_returns(2) [of files max_song self] cut by simp
  moreover have "length (take (nat max_song) ?pool) =
      min (nat max_song)
        (length (glob files (source_root_dir self @ ''val-query-db-500-30s/'' @ ''**/*.wav'')))"
    by (simp add: sorted_glob_def min.commute)
  moreover have "sorted (take (nat max_song) ?pool)"
    by (simp add: sorted_sorted_glob sorted_wrt_take)
  ultimately show ?thesis
    by (intro exI [of _ ?pol]) simp
qed

text \<open>
  On a pool of 600 files a cap of 500 gives the first 500 entries of the sorted pool,
  and a cap of 10000 gives all 600.
\<close>

theorem validation_cap_pool_of_600:
  "length (glob val_pool_600 ''/m/val-query-db-500-30s/**/*.wav'') = 600 \<and>
   returned (get_val_ds val_pool_600 500 example_self) \<noteq> None \<and>
   fns_source_event_list (the (returned (get_val_ds val_pool_600 500 example_self))) =
     take 500 (sorted_glob val_pool_600 ''/m/val-query-db-500-30s/**/*.wav'') \<and>
   length (fns_source_event_list (the (returned (get_val_ds val_pool_600 500 example_self))))
     = 500 \<and>
   returned (get_val_ds val_pool_600 10000 example_self) \<noteq> None \<and>
   fns_source_event_list (the (returned (get_val_ds val_pool_600 10000 example_self))) =
     sorted_glob val_pool_600 ''/m/val-query-db-500-30s/**/*.wav'' \<and>
   length (fns_source_event_list (the (returned (get_val_ds val_pool_600 10000 example_self))))
     = 600"
proof -
  have len: "length (glob val_pool_600 ''/m/val-query-db-500-30s/**/*.wav'') = 600"
    by (simp add: val_pool_600_def)
  then have slen: "length (sorted_glob val_pool_600 ''/m/val-query-db-500-30s/**/*.wav'') = 600"
    by (simp add: sorted_glob_def)
  have root: "source_root_dir example_self @ ''val-query-db-500-30s/'' @ ''**/*.wav'' =
      ''/m/val-query-db-500-30s/**/*.wav''"
    by (simp add: example_self_attrs)
  from validation_cap [of 500 val_pool_600 example_self]
  obtain p where p: "get_val_ds val_pool_600 500 example_self =
        (Inr p, example_self\<lparr>val_source_fps := Some (fns_source_event_list p)\<rparr>)"
    and pf: "fns_source_event_list p =
        take (nat 500) (sorted_glob val_pool_600 ''/m/val-query-db-500-30s/**/*.wav'')"
    and pl: "length (fns_source_event_list p) =
        min (nat 500) (length (glob val_pool_600 ''/m/val-query-db-500-30s/**/*.wav''))"
    unfolding root by auto
  from validation_cap [of 10000 val_pool_600 example_self]
  obtain q where q: "get_val_ds val_pool_600 10000 example_self =
        (Inr q, example_self\<lparr>val_source_fps := Some (fns_source_event_list q)\<rparr>)"
    and qf: "fns_source_event_list q =
        take (nat 10000) (sorted_glob val_pool_600 ''/m/val-query-db-500-30s/**/*.wav'')"
    and ql: "length (fns_source_event_list q) =
        min (nat 10000) (length (glob val_pool_600 ''/m/val-query-db-500-30s/**/*.wav''))"
    unfolding root by auto
  from p have rp: "returned (get_val_ds val_pool_600 500 example_self) = Some p"
    by (simp add: outcome_simps)
  from q have rq: "returned (get_val_ds val_pool_600 10000 example_self) = Some q"
    by (simp add: outcome_simps)
  from qf slen have qf': "fns_source_event_list q =
      sorted_glob val_pool_600 ''/m/val-query-db-500-30s/**/*.wav''"
    by simp
  from pl len have pl': "length (fns_source_event_list p) = 500"
    by simp
  from ql len have ql': "length (fns_source_event_list q) = 600"
    by simp
  from pf have pf': "fns_source_event_list p =
      take 500 (sorted_glob val_pool_600 ''/m/val-query-db-500-30s/**/*.wav'')"
    by simp
  show ?thesis
    unfolding rp rq using len pf' pl' qf' ql' by simp
qed

text \<open>
  Against C7 as stated: \<^verbatim>\<open>max_song = -1\<close> on the example pool of three files is the
  slice \<^verbatim>\<open>[:-1]\<close>, which keeps two entries.
\<close>

theorem validation_negative_cap:
  "length (glob example_files ''/m/val-query-db-500-30s/**/*.wav'') = 3 \<and>
   map_option fns_source_event_list (returned (get_val_ds example_files (- 1) example_self)) =
     Some [''/m/val-query-db-500-30s/db/x.wav'', ''/m/val-query-db-500-30s/db/y.wav''] \<and>
   int (length [''/m/val-query-db-500-30s/db/x.wav'', ''/m/val-query-db-500-30s/db/y.wav''])
     \<noteq> min (- 1) (int (length (glob example_files ''/m/val-query-db-500-30s/**/*.wav'')))"
  by (simp add: get_val_ds_def Let_def outcome_simps slice_to_def sorted_glob_def
        example_self_attrs example_files_def)

subsection \<open>C8: the roots of disabled augmentations\<close>

text \<open>
  C8 says that the root of a disabled augmentation is never scanned, in particular not
  the test subdirectory of the speech root when the test speech toggle is off. Eight of
  the nine scans of \<^verbatim>\<open>__set_augmentation_fps\<close> stand under their toggle; the scan of the
  test speech directory stands under none. So for every configuration, whatever the
  toggle, the constructor scans that directory and stores the result in
  \<^verbatim>\<open>ts_speech_fps\<close>.
\<close>

theorem constructor_scans_test_speech:
  "SPEECH_ROOT_DIR (DIR c) @ ''test/**/*.wav'' \<in> set (snd (init files c)) \<and>
   ts_speech_fps (fst (init files c)) =
     Some (sorted_glob files (SPEECH_ROOT_DIR (DIR c) @ ''test/**/*.wav''))"
  by (simp add: init_closed split del: if_split cong: if_cong)

text \<open>
  The example configuration has every toggle off: the constructor makes exactly one
  scan, of the test speech directory.
\<close>

theorem constructor_scans_test_speech_example:
  "\<not> TS_SPEECH_AUG (TD_AUG example_cfg) \<and>
   ''/sp/test/**/*.wav'' \<in> set (snd (init example_files example_cfg)) \<and>
   snd (init example_files example_cfg) = [''/sp/test/**/*.wav''] \<and>
   ts_speech_fps (fst (init example_files example_cfg)) =
     Some [''/sp/test/u.wav'', ''/sp/test/v.wav'']"
proof -
  have "snd (init example_files example_cfg) = [''/sp/test/**/*.wav'']"
    by (simp add: init_closed example_cfg_toggles)
  with constructor_scans_test_speech [of example_cfg example_files] show ?thesis
    by (simp add: example_cfg_toggles sorted_glob_def example_files_def)
qed

subsection \<open>C9: sorted and reproducible file lists\<close>



subsection \<open>C10: the argument datasel\<close>

text \<open>
  C10 says that \<^verbatim>\<open>datasel\<close> has no effect on the result or on the object. The method's
  documentation offers the argument as a way to select the protocol; its first statement
  is \<^verbatim>\<open>if datasel: self.datasel\<close>, which assigns nothing and reads an attribute that the
  object never gets. So a call with \<^verbatim>\<open>datasel\<close> \<^verbatim>\<open>None\<close> or the empty string is the call
  without it, and a call with any other \<^verbatim>\<open>datasel\<close> raises \<^verbatim>\<open>AttributeError\<close> and
  leaves the object as it was: under either supported protocol its outcome differs from
  the outcome of the call without the argument, which returns a pair of policies.
\<close>

theorem datasel_argument_raises:
  "(datasel = None \<or> datasel = Some [] \<longrightarrow>
      get_test_query_db_ds files datasel self = get_test_query_db_ds files None self) \<and>
   (datasel \<noteq> None \<and> datasel \<noteq> Some [] \<longrightarrow>
      get_test_query_db_ds files datasel self = (Inl (AttributeError ''datasel''), self) \<and>
      (datasel_test_query_db self = ''unseen_icassp'' \<or>
       datasel_test_query_db self = ''unseen_syn'' \<longrightarrow>
         returned (get_test_query_db_ds files None self) \<noteq> None \<and>
         returned (get_test_query_db_ds files datasel self) = None \<and>
         get_test_query_db_ds files datasel self \<noteq> get_test_query_db_ds files None self))"
proof (intro conjI impI)
  assume "datasel = None \<or> datasel = Some []"
  then show "get_test_query_db_ds files datasel self = get_test_query_db_ds files None self"
    by (auto simp add: get_test_query_db_ds_def)
next
  assume "datasel \<noteq> None \<and> datasel \<noteq> Some []"
  then show "get_test_query_db_ds files datasel self = (Inl (AttributeError ''datasel''), self)"
    by (simp add: get_test_query_db_ds_def)
next
  assume tag: "datasel_test_query_db self = ''unseen_icassp'' \<or>
    datasel_test_query_db self = ''unseen_syn''"
  then show "returned (get_test_query_db_ds files None self) \<noteq> None"
    by (auto simp add: get_test_query_db_ds_def Let_def outcome_simps)
next
  assume "datasel \<noteq> None \<and> datasel \<noteq> Some []"
  then show "returned (get_test_query_db_ds files datasel self) = None"
    by (simp add: get_test_query_db_ds_def outcome_simps)
next
  assume arg: "datasel \<noteq> None \<and> datasel \<noteq> Some []"
    and tag: "datasel_test_query_db self = ''unseen_icassp'' \<or>
      datasel_test_query_db self = ''unseen_syn''"
  from arg have "returned (get_test_query_db_ds files datasel self) = None"
    by (simp add: get_test_query_db_ds_def outcome_simps)
  moreover from tag have "returned (get_test_query_db_ds files None self) \<noteq> None"
    by (auto simp add: get_test_query_db_ds_def Let_def outcome_simps)
  ultimately show "get_test_query_db_ds files datasel self \<noteq> get_test_query_db_ds files None self"
    by auto
qed

text \<open>
  The example object, whose configured protocol is \<^verbatim>\<open>unseen_syn\<close>: the empty string is
  the call without the argument; with \<^verbatim>\<open>datasel = "unseen_icassp"\<close> the call raises and
  leaves the object as it was, while the call without the argument returns and stores a
  file list.
\<close>

theorem datasel_argument_raises_witness:
  "get_test_query_db_ds example_files (Some []) example_self =
     get_test_query_db_ds example_files None example_self \<and>
   datasel_test_query_db example_self = ''unseen_syn'' \<and>
   get_test_query_db_ds example_files (Some ''unseen_icassp'') example_self =
     (Inl (AttributeError ''datasel''), example_self) \<and>
   returned (get_test_query_db_ds example_files None example_self) \<noteq> None \<and>
   returned (get_test_query_db_ds example_files (Some ''unseen_icassp'') example_self) = None \<and>
   get_test_query_db_ds example_files (Some ''unseen_icassp'') example_self \<noteq>
     get_test_query_db_ds example_files None example_self \<and>
   ts_query_db_unseen_fps (snd (get_test_query_db_ds example_files None example_self)) =
     Some [''/m/val-query-db-500-30s/db/x.wav'', ''/m/val-query-db-500-30s/db/y.wav''] \<and>
   ts_query_db_unseen_fps
     (snd (get_test_query_db_ds example_files (Some ''unseen_icassp'') example_self)) = None"
proof -
  have tag: "datasel_test_query_db example_self = ''unseen_syn''"
    by (simp add: example_self_attrs)
  have stored: "ts_query_db_unseen_fps (snd (get_test_query_db_ds example_files None example_self)) =
      Some [''/m/val-query-db-500-30s/db/x.wav'', ''/m/val-query-db-500-30s/db/y.wav'']"
    by (simp add: get_test_query_db_ds_def Let_def example_self_attrs sorted_glob_def
          example_files_def)
  from datasel_argument_raises [of "Some []" example_files example_self]
  have empty: "get_test_query_db_ds example_files (Some []) example_self =
      get_test_query_db_ds example_files None example_self"
    by simp
  from datasel_argument_raises [of "Some ''unseen_icassp''" example_files example_self] tag
  have given: "get_test_query_db_ds example_files (Some ''unseen_icassp'') example_self =
        (Inl (AttributeError ''datasel''), example_self)"
    "returned (get_test_query_db_ds example_files None example_self) \<noteq> None"
    "returned (get_test_query_db_ds example_files (Some ''unseen_icassp'') example_self) = None"
    "get_test_query_db_ds example_files (Some ''unseen_icassp'') example_self \<noteq>
       get_test_query_db_ds example_files None example_self"
    by blast+
  from given(1) have kept: "ts_query_db_unseen_fps
      (snd (get_test_query_db_ds example_files (Some ''unseen_icassp'') example_self)) = None"
    by (simp add: example_self_lists)
  from tag stored empty given kept show ?thesis
    by (simp del: not_None_eq)
qed

end
